theory Spec2Isabelle
  imports Complex_Main
begin

section \<open>Data model (client/src/lib/types.ts)\<close>

text \<open>
  JavaScript numbers that carry prices are modelled as \<^typ>\<open>real\<close>: bars are finite, and
  rounding and overflow of doubles are not modelled. A slot of a numeric array that holds
  \<open>NaN\<close> is \<open>None\<close> in a \<^typ>\<open>real option\<close>. Times are integers (bar times in seconds,
  wall-clock times in milliseconds), array positions and periods are naturals. Where the
  source updates an object through an alias of an array element, the model replaces that
  element of the list.
\<close>

datatype MarketType = Fx | Cn | Hk | Us | Crypto | Commodities

datatype Timeframe = TF_1D | TF_4H | TF_15m | TF_1H | TF_5m

record OHLCBar =
  bar_time :: int
  bar_open :: real
  bar_high :: real
  bar_low :: real
  bar_close :: real
  bar_volume :: "real option"

section \<open>Containment processing (chanlunEngine.ts, processContainment)\<close>

record ProcessedBar =
  originalIndex :: nat
  pb_time :: int
  pb_high :: real
  pb_low :: real
  pb_close :: real

definition toProcessed :: "nat \<Rightarrow> OHLCBar \<Rightarrow> ProcessedBar" where
  "toProcessed i b =
     \<lparr>originalIndex = i, pb_time = bar_time b, pb_high = bar_high b,
      pb_low = bar_low b, pb_close = bar_close b\<rparr>"

text \<open>
  The merge branch of the loop body. In the source \<open>prev\<close> aliases the last element of
  \<open>result\<close> and is updated in place; the time field is left as it was.
\<close>

definition mergeBar :: "bool \<Rightarrow> nat \<Rightarrow> OHLCBar \<Rightarrow> ProcessedBar \<Rightarrow> ProcessedBar" where
  "mergeBar isUpTrend i cur prev =
     (if isUpTrend
      then prev\<lparr>pb_high := max (pb_high prev) (bar_high cur),
                pb_low := max (pb_low prev) (bar_low cur),
                pb_close := bar_close cur, originalIndex := i\<rparr>
      else prev\<lparr>pb_high := min (pb_high prev) (bar_high cur),
                pb_low := min (pb_low prev) (bar_low cur),
                pb_close := bar_close cur, originalIndex := i\<rparr>)"

text \<open>One iteration of the \<open>for\<close> loop; \<open>result\<close> is never empty when it runs.\<close>

definition containStep :: "ProcessedBar list \<Rightarrow> nat \<Rightarrow> OHLCBar \<Rightarrow> ProcessedBar list" where
  "containStep result i cur =
     (let prev = last result;
          curContainsPrev = (bar_high cur \<ge> pb_high prev \<and> bar_low cur \<le> pb_low prev);
          prevContainsCur = (pb_high prev \<ge> bar_high cur \<and> pb_low prev \<le> bar_low cur)
      in if curContainsPrev \<or> prevContainsCur
         then let isUpTrend =
                    (if length result \<ge> 2
                     then pb_high prev > pb_high (result ! (length result - 2))
                     else True)
              in butlast result @ [mergeBar isUpTrend i cur prev]
         else result @ [toProcessed i cur])"

fun containLoop :: "nat \<Rightarrow> OHLCBar list \<Rightarrow> ProcessedBar list \<Rightarrow> ProcessedBar list" where
  "containLoop i [] result = result"
| "containLoop i (cur # rest) result = containLoop (Suc i) rest (containStep result i cur)"

definition processContainment :: "OHLCBar list \<Rightarrow> ProcessedBar list" where
  "processContainment bars =
     (case bars of
        [] \<Rightarrow> []
      | b0 # rest \<Rightarrow> containLoop 1 rest [toProcessed 0 b0])"

text \<open>The containment relation of the source's two tests (non-strict on both ends).\<close>

definition barContains :: "ProcessedBar \<Rightarrow> ProcessedBar \<Rightarrow> bool" where
  "barContains a b = (pb_high a \<ge> pb_high b \<and> pb_low a \<le> pb_low b)"

definition separated :: "ProcessedBar \<Rightarrow> ProcessedBar \<Rightarrow> bool" where
  "separated a b = (\<not> barContains a b \<and> \<not> barContains b a)"

definition adjacentSeparated :: "ProcessedBar list \<Rightarrow> bool" where
  "adjacentSeparated ps = (\<forall>i. Suc i < length ps \<longrightarrow> separated (ps ! i) (ps ! Suc i))"

section \<open>ATR (client/src/lib/indicators.ts, calcATR)\<close>

definition trueRange :: "OHLCBar \<Rightarrow> OHLCBar \<Rightarrow> real" where
  "trueRange prevBar curBar =
     (let hl = bar_high curBar - bar_low curBar;
          hc = \<bar>bar_high curBar - bar_close prevBar\<bar>;
          lc = \<bar>bar_low curBar - bar_close prevBar\<bar>
      in max (max hl hc) lc)"

text \<open>
  The smoothing loop carries the array under construction and the running \<open>atr\<close>.
  With \<open>period = 0\<close> the source divides by zero, every value it writes is \<open>NaN\<close>, and the
  array it returns is the \<open>NaN\<close>-filled one.
\<close>

definition atrStep :: "real list \<Rightarrow> nat \<Rightarrow> real option list \<times> real \<Rightarrow> nat \<Rightarrow> real option list \<times> real" where
  "atrStep trs period st i =
     (let atr = (snd st * (real period - 1) + trs ! i) / real period
      in ((fst st)[i + 1 := Some atr], atr))"

definition calcATR :: "OHLCBar list \<Rightarrow> nat \<Rightarrow> real option list" where
  "calcATR bars period =
     (if length bars < 2 then []
      else
        let trs = map (\<lambda>i. trueRange (bars ! (i - 1)) (bars ! i)) [1 ..< length bars];
            result = replicate (length bars) None
        in if length trs < period then result
           else if period = 0 then result
           else
             let atr = sum_list (take period trs) / real period
             in fst (foldl (atrStep trs period) (result[period := Some atr], atr)
                       [period ..< length trs]))"

section \<open>Fractals (chanlunEngine.ts, detectFractals)\<close>

datatype FractalType = Top | Bottom

record Fractal =
  f_index :: nat
  f_time :: int
  f_price :: real
  f_type :: FractalType

definition fractalAt :: "ProcessedBar list \<Rightarrow> nat \<Rightarrow> Fractal list" where
  "fractalAt processed i =
     (let prev = processed ! (i - 1); cur = processed ! i; nxt = processed ! (i + 1)
      in if pb_high cur > pb_high prev \<and> pb_high cur > pb_high nxt
         then [\<lparr>f_index = i, f_time = pb_time cur, f_price = pb_high cur, f_type = Top\<rparr>]
         else if pb_low cur < pb_low prev \<and> pb_low cur < pb_low nxt
         then [\<lparr>f_index = i, f_time = pb_time cur, f_price = pb_low cur, f_type = Bottom\<rparr>]
         else [])"

definition detectFractals :: "ProcessedBar list \<Rightarrow> Fractal list" where
  "detectFractals processed = concat (map (fractalAt processed) [1 ..< length processed - 1])"

section \<open>Bi formation (chanlunEngine.ts, formBis and getAvgATR)\<close>

datatype ConfirmRule = NewHigh | BreakPullbackHigh

text \<open>
  The parameter object as it is at run time. A numeric field is \<open>None\<close> when it holds
  \<open>undefined\<close> or \<open>NaN\<close> (\<open>runChanlun\<close> can spread such a value over the default); every
  comparison the stages make with such a field is false, as it is in JavaScript. The rule
  is \<open>None\<close> when it is \<open>undefined\<close>.
\<close>

record ChanlunParams =
  minBiKbars :: "real option"
  minBiMoveAtr :: "real option"
  breakoutAtr :: "real option"
  pullbackToleranceAtr :: "real option"
  confirmRule :: "ConfirmRule option"

datatype BiDirection = Up | Down

record Bi =
  bi_id :: nat
  direction :: BiDirection
  startFractal :: Fractal
  endFractal :: Fractal
  kbarCount :: int

definition getAvgATR :: "real option list \<Rightarrow> nat \<Rightarrow> nat \<Rightarrow> real" where
  "getAvgATR atrValues startIdx endIdx =
     (let vals = List.map_filter (\<lambda>i. atrValues ! i)
                   [startIdx ..< min (Suc endIdx) (length atrValues)];
          cnt = length vals
      in if cnt > 0 then sum_list vals / real cnt else 0)"

text \<open>The first loop of \<open>formBis\<close>: keep an alternating run of fractals.\<close>

definition filterStep :: "Fractal list \<Rightarrow> Fractal \<Rightarrow> Fractal list" where
  "filterStep filtered cur =
     (let lst = last filtered
      in if f_type cur \<noteq> f_type lst then filtered @ [cur]
         else if f_type cur = Top \<and> f_price cur > f_price lst
         then filtered[length filtered - 1 := cur]
         else if f_type cur = Bottom \<and> f_price cur < f_price lst
         then filtered[length filtered - 1 := cur]
         else filtered)"

definition filterFractals :: "Fractal list \<Rightarrow> Fractal list" where
  "filterFractals fractals =
     (case fractals of [] \<Rightarrow> [] | f0 # rest \<Rightarrow> foldl filterStep [f0] rest)"

text \<open>The second loop: the state is the list of bis and the next id.\<close>

definition biStep ::
  "real option list \<Rightarrow> ChanlunParams \<Rightarrow> Fractal list \<Rightarrow> Bi list \<times> nat \<Rightarrow> nat \<Rightarrow> Bi list \<times> nat" where
  "biStep atrValues params filtered st i =
     (let start = filtered ! i; fin = filtered ! (i + 1);
          kbars = int (f_index fin) - int (f_index start)
      in if (case minBiKbars params of None \<Rightarrow> False | Some m \<Rightarrow> real_of_int kbars < m)
         then st
         else
           let avgAtr = getAvgATR atrValues (f_index start) (f_index fin);
               move = \<bar>f_price fin - f_price start\<bar>
           in if avgAtr > 0
                 \<and> (case minBiMoveAtr params of None \<Rightarrow> False | Some m \<Rightarrow> move < m * avgAtr)
              then st
              else (fst st @
                      [\<lparr>bi_id = snd st,
                        direction = (if f_type start = Bottom then Up else Down),
                        startFractal = start, endFractal = fin, kbarCount = kbars\<rparr>],
                    Suc (snd st)))"

definition formBis ::
  "Fractal list \<Rightarrow> ProcessedBar list \<Rightarrow> real option list \<Rightarrow> ChanlunParams \<Rightarrow> Bi list" where
  "formBis fractals processed atrValues params =
     (if length fractals < 2 then []
      else
        let filtered = filterFractals fractals
        in fst (foldl (biStep atrValues params filtered) ([], 0) [0 ..< length filtered - 1]))"

section \<open>Zhongshu detection (chanlunEngine.ts, detectZhongshu)\<close>

record Zhongshu =
  z_id :: nat
  z_high :: real
  z_low :: real
  startTime :: int
  endTime :: int
  biIds :: "nat list"
  isActive :: bool

record BiRange =
  r_high :: real
  r_low :: real

definition getBiRange :: "Bi \<Rightarrow> BiRange" where
  "getBiRange bi =
     \<lparr>r_high = max (f_price (startFractal bi)) (f_price (endFractal bi)),
      r_low = min (f_price (startFractal bi)) (f_price (endFractal bi))\<rparr>"

definition tripleHigh :: "Bi list \<Rightarrow> nat \<Rightarrow> real" where
  "tripleHigh bis i =
     min (min (r_high (getBiRange (bis ! i))) (r_high (getBiRange (bis ! (i + 1)))))
         (r_high (getBiRange (bis ! (i + 2))))"

definition tripleLow :: "Bi list \<Rightarrow> nat \<Rightarrow> real" where
  "tripleLow bis i =
     max (max (r_low (getBiRange (bis ! i))) (r_low (getBiRange (bis ! (i + 1)))))
         (r_low (getBiRange (bis ! (i + 2))))"

text \<open>
  The guard of the extension branch: a last zhongshu exists, is active, the triple's first
  bi does not precede its last contributing bi, and the third bi's range meets its range.
\<close>

definition canExtend :: "Zhongshu list \<Rightarrow> Bi \<Rightarrow> Bi \<Rightarrow> bool" where
  "canExtend zhongshus b1 b3 =
     (zhongshus \<noteq> [] \<and> isActive (last zhongshus) \<and> biIds (last zhongshus) \<noteq> []
      \<and> bi_id b1 \<ge> last (biIds (last zhongshus))
      \<and> r_high (getBiRange b3) \<ge> z_low (last zhongshus)
      \<and> r_low (getBiRange b3) \<le> z_high (last zhongshus))"

text \<open>\<open>lastZ\<close> aliases the last element of \<open>zhongshus\<close>; the two assignments update it in place.\<close>

definition extendLast :: "Zhongshu list \<Rightarrow> Bi \<Rightarrow> Zhongshu list" where
  "extendLast zhongshus b3 =
     zhongshus[length zhongshus - 1 :=
       (last zhongshus)\<lparr>endTime := f_time (endFractal b3),
                        biIds := biIds (last zhongshus) @ [bi_id b3]\<rparr>]"

definition zhongshuStep :: "Bi list \<Rightarrow> Zhongshu list \<times> nat \<Rightarrow> nat \<Rightarrow> Zhongshu list \<times> nat" where
  "zhongshuStep bis st i =
     (let b1 = bis ! i; b2 = bis ! (i + 1); b3 = bis ! (i + 2);
          zHigh = tripleHigh bis i; zLow = tripleLow bis i
      in if zHigh \<le> zLow then st
         else if canExtend (fst st) b1 b3 then (extendLast (fst st) b3, snd st)
         else (fst st @
                 [\<lparr>z_id = snd st, z_high = zHigh, z_low = zLow,
                   startTime = f_time (startFractal b1), endTime = f_time (endFractal b3),
                   biIds = [bi_id b1, bi_id b2, bi_id b3], isActive = True\<rparr>],
               Suc (snd st)))"

definition detectZhongshu :: "Bi list \<Rightarrow> Zhongshu list" where
  "detectZhongshu bis =
     (if length bis < 3 then []
      else fst (foldl (zhongshuStep bis) ([], 0) [0 ..< length bis - 2]))"

section \<open>Third-buy detection (chanlunEngine.ts, detectThirdBuys)\<close>

datatype ThirdBuyStatus = Candidate | Confirmed | Invalid

record ThirdBuySignal =
  tb_id :: string
  tb_zhongshu :: Zhongshu
  tb_status :: ThirdBuyStatus
  breakoutTime :: int
  breakoutPrice :: real
  pullbackLow :: "real option"
  pullbackTime :: "int option"
  confirmTime :: "int option"
  confirmPrice :: "real option"
  tb_symbol :: string
  tb_timeframe :: Timeframe
  tb_market :: MarketType

text \<open>
  \<open>nanoid()\<close> draws a fresh random identifier on every call. The model makes the hidden
  generator explicit: \<open>ids\<close> is the sequence of identifiers the generator will hand out and
  a counter says how many have been drawn.
\<close>

type_synonym idSupply = "nat \<Rightarrow> string"

fun findIndexFrom :: "('a \<Rightarrow> bool) \<Rightarrow> 'a list \<Rightarrow> nat \<Rightarrow> nat option" where
  "findIndexFrom P [] i = None"
| "findIndexFrom P (x # xs) i = (if P x then Some i else findIndexFrom P xs (Suc i))"

text \<open>\<open>bis.findIndex(b => b.id === lastBiId)\<close>; an empty \<open>biIds\<close> gives \<open>undefined\<close>, which no id equals.\<close>

definition lastBiIndex :: "Bi list \<Rightarrow> Zhongshu \<Rightarrow> nat option" where
  "lastBiIndex bis z =
     (if biIds z = [] then None
      else findIndexFrom (\<lambda>b. bi_id b = last (biIds z)) bis 0)"

definition isBreakout :: "real option list \<Rightarrow> ChanlunParams \<Rightarrow> Zhongshu \<Rightarrow> Bi \<Rightarrow> bool" where
  "isBreakout atrValues params z bi =
     (direction bi = Up \<and> f_price (endFractal bi) > z_high z
      \<and> (case breakoutAtr params of
             None \<Rightarrow> False
           | Some m \<Rightarrow>
               f_price (endFractal bi) - z_high z
                 \<ge> m * getAvgATR atrValues (f_index (startFractal bi))
                         (f_index (endFractal bi))))"

text \<open>Step 1 of the loop body: the index of the breakout bi, if the zhongshu has one.\<close>

definition breakoutIndex ::
  "real option list \<Rightarrow> ChanlunParams \<Rightarrow> Bi list \<Rightarrow> Zhongshu \<Rightarrow> nat option" where
  "breakoutIndex atrValues params bis z =
     (case lastBiIndex bis z of
        None \<Rightarrow> None
      | Some lastBiIdx \<Rightarrow>
          if lastBiIdx + 1 \<ge> length bis then None
          else findIndexFrom (isBreakout atrValues params z)
                 (drop (lastBiIdx + 1) bis) (lastBiIdx + 1))"

definition pullbackEntered :: "real option list \<Rightarrow> ChanlunParams \<Rightarrow> Zhongshu \<Rightarrow> Bi \<Rightarrow> bool" where
  "pullbackEntered atrValues params z pullbackBi =
     (let avgAtr = getAvgATR atrValues (f_index (startFractal pullbackBi))
                     (f_index (endFractal pullbackBi))
      in case pullbackToleranceAtr params of
           None \<Rightarrow> False
         | Some m \<Rightarrow>
             let tolerance = m * avgAtr
             in f_price (endFractal pullbackBi) < z_high z - tolerance)"

definition confirmationPasses :: "ChanlunParams \<Rightarrow> Bi \<Rightarrow> Bi \<Rightarrow> Bi \<Rightarrow> bool" where
  "confirmationPasses params breakoutBi pullbackBi confirmBi =
     (if confirmRule params = Some NewHigh
      then f_price (endFractal confirmBi) > f_price (endFractal breakoutBi)
      else f_price (endFractal confirmBi) > f_price (startFractal pullbackBi))"

definition breakoutCandidate ::
  "string \<Rightarrow> Zhongshu \<Rightarrow> Bi \<Rightarrow> string \<Rightarrow> Timeframe \<Rightarrow> MarketType \<Rightarrow> ThirdBuySignal" where
  "breakoutCandidate ident z breakoutBi symbol timeframe market =
     \<lparr>tb_id = ident, tb_zhongshu = z, tb_status = Candidate,
      breakoutTime = f_time (endFractal breakoutBi),
      breakoutPrice = f_price (endFractal breakoutBi),
      pullbackLow = None, pullbackTime = None, confirmTime = None, confirmPrice = None,
      tb_symbol = symbol, tb_timeframe = timeframe, tb_market = market\<rparr>"

definition heldCandidate ::
  "string \<Rightarrow> Zhongshu \<Rightarrow> Bi \<Rightarrow> Bi \<Rightarrow> string \<Rightarrow> Timeframe \<Rightarrow> MarketType \<Rightarrow> ThirdBuySignal" where
  "heldCandidate ident z breakoutBi pullbackBi symbol timeframe market =
     \<lparr>tb_id = ident, tb_zhongshu = z, tb_status = Candidate,
      breakoutTime = f_time (endFractal breakoutBi),
      breakoutPrice = f_price (endFractal breakoutBi),
      pullbackLow = Some (f_price (endFractal pullbackBi)),
      pullbackTime = Some (f_time (endFractal pullbackBi)),
      confirmTime = None, confirmPrice = None,
      tb_symbol = symbol, tb_timeframe = timeframe, tb_market = market\<rparr>"

text \<open>
  The body of the loop over zhongshus: the signals it pushes (none or one) and the
  generator's counter afterwards. Every \<open>continue\<close> of the source is a branch returning
  no signal. The held candidate draws an identifier when it is built, the confirmed
  variant draws a second one.
\<close>

definition thirdBuyFor ::
  "idSupply \<Rightarrow> Bi list \<Rightarrow> real option list \<Rightarrow> ChanlunParams \<Rightarrow> string \<Rightarrow> Timeframe \<Rightarrow> MarketType
     \<Rightarrow> Zhongshu \<Rightarrow> nat \<Rightarrow> ThirdBuySignal list \<times> nat" where
  "thirdBuyFor ids bis atrValues params symbol timeframe market z n =
     (case breakoutIndex atrValues params bis z of
        None \<Rightarrow> ([], n)
      | Some breakoutIdx \<Rightarrow>
          let breakoutBi = bis ! breakoutIdx
          in if breakoutIdx + 1 \<ge> length bis
             then ([breakoutCandidate (ids n) z breakoutBi symbol timeframe market], Suc n)
             else
               let pullbackBi = bis ! (breakoutIdx + 1)
               in if direction pullbackBi \<noteq> Down then ([], n)
                  else if pullbackEntered atrValues params z pullbackBi then ([], n)
                  else
                    let candidateSignal =
                          heldCandidate (ids n) z breakoutBi pullbackBi symbol timeframe market
                    in if breakoutIdx + 2 \<ge> length bis then ([candidateSignal], Suc n)
                       else
                         let confirmBi = bis ! (breakoutIdx + 2)
                         in if direction confirmBi \<noteq> Up then ([candidateSignal], Suc n)
                            else if confirmationPasses params breakoutBi pullbackBi confirmBi
                            then ([candidateSignal
                                     \<lparr>tb_id := ids (Suc n), tb_status := Confirmed,
                                      confirmTime := Some (f_time (endFractal confirmBi)),
                                      confirmPrice := Some (f_price (endFractal confirmBi))\<rparr>],
                                  Suc (Suc n))
                            else ([candidateSignal], Suc n))"

definition thirdBuyStep ::
  "idSupply \<Rightarrow> Bi list \<Rightarrow> real option list \<Rightarrow> ChanlunParams \<Rightarrow> string \<Rightarrow> Timeframe \<Rightarrow> MarketType
     \<Rightarrow> ThirdBuySignal list \<times> nat \<Rightarrow> Zhongshu \<Rightarrow> ThirdBuySignal list \<times> nat" where
  "thirdBuyStep ids bis atrValues params symbol timeframe market st z =
     (let r = thirdBuyFor ids bis atrValues params symbol timeframe market z (snd st)
      in (fst st @ fst r, snd r))"

definition detectThirdBuys ::
  "idSupply \<Rightarrow> nat \<Rightarrow> Bi list \<Rightarrow> Zhongshu list \<Rightarrow> real option list \<Rightarrow> ChanlunParams \<Rightarrow> string
     \<Rightarrow> Timeframe \<Rightarrow> MarketType \<Rightarrow> ThirdBuySignal list \<times> nat" where
  "detectThirdBuys ids n bis zhongshus atrValues params symbol timeframe market =
     foldl (thirdBuyStep ids bis atrValues params symbol timeframe market) ([], n) zhongshus"

section \<open>The pipeline (chanlunEngine.ts, runChanlun)\<close>

definition DEFAULT_PARAMS :: "MarketType \<Rightarrow> ChanlunParams" where
  "DEFAULT_PARAMS market =
     (if market = Crypto
      then \<lparr>minBiKbars = Some 4, minBiMoveAtr = Some (8 / 10), breakoutAtr = Some (4 / 10),
            pullbackToleranceAtr = Some (4 / 10), confirmRule = Some BreakPullbackHigh\<rparr>
      else \<lparr>minBiKbars = Some 5, minBiMoveAtr = Some 1, breakoutAtr = Some (5 / 10),
            pullbackToleranceAtr = Some (3 / 10), confirmRule = Some BreakPullbackHigh\<rparr>)"

text \<open>
  \<open>Partial<ChanlunParams>\<close>: each key is absent, or present with a value; a present value
  may itself be \<open>undefined\<close> or \<open>NaN\<close> (\<open>None\<close>). The spread \<open>{...defaults, ...params}\<close>
  copies every key that is present, whatever its value, over the default.
\<close>

datatype 'a entry = Absent | Present 'a

record PartialParams =
  opt_minBiKbars :: "real option entry"
  opt_minBiMoveAtr :: "real option entry"
  opt_breakoutAtr :: "real option entry"
  opt_pullbackToleranceAtr :: "real option entry"
  opt_confirmRule :: "ConfirmRule option entry"

definition noOverrides :: PartialParams where
  "noOverrides =
     \<lparr>opt_minBiKbars = Absent, opt_minBiMoveAtr = Absent, opt_breakoutAtr = Absent,
      opt_pullbackToleranceAtr = Absent, opt_confirmRule = Absent\<rparr>"

definition spreadParams :: "ChanlunParams \<Rightarrow> PartialParams \<Rightarrow> ChanlunParams" where
  "spreadParams d p =
     \<lparr>minBiKbars = (case opt_minBiKbars p of Absent \<Rightarrow> minBiKbars d | Present v \<Rightarrow> v),
      minBiMoveAtr = (case opt_minBiMoveAtr p of Absent \<Rightarrow> minBiMoveAtr d | Present v \<Rightarrow> v),
      breakoutAtr = (case opt_breakoutAtr p of Absent \<Rightarrow> breakoutAtr d | Present v \<Rightarrow> v),
      pullbackToleranceAtr =
        (case opt_pullbackToleranceAtr p of
           Absent \<Rightarrow> pullbackToleranceAtr d
         | Present v \<Rightarrow> v),
      confirmRule = (case opt_confirmRule p of Absent \<Rightarrow> confirmRule d | Present v \<Rightarrow> v)\<rparr>"

record ChanlunResult =
  res_processedBars :: "ProcessedBar list"
  res_fractals :: "Fractal list"
  res_bis :: "Bi list"
  res_zhongshus :: "Zhongshu list"
  res_thirdBuys :: "ThirdBuySignal list"

text \<open>One run, started with the generator at counter \<open>n\<close>; the counter it leaves is returned too.\<close>

definition runChanlun ::
  "idSupply \<Rightarrow> nat \<Rightarrow> OHLCBar list \<Rightarrow> MarketType \<Rightarrow> string \<Rightarrow> Timeframe \<Rightarrow> PartialParams
     \<Rightarrow> ChanlunResult \<times> nat" where
  "runChanlun ids n bars market symbol timeframe params =
     (let p = spreadParams (DEFAULT_PARAMS market) params;
          atrValues = calcATR bars 14;
          pbs = processContainment bars;
          frs = detectFractals pbs;
          bs = formBis frs pbs atrValues p;
          zs = detectZhongshu bs;
          tb = detectThirdBuys ids n bs zs atrValues p symbol timeframe market
      in (\<lparr>res_processedBars = pbs, res_fractals = frs, res_bis = bs, res_zhongshus = zs,
            res_thirdBuys = fst tb\<rparr>,
          snd tb))"

section \<open>EMA and RSI (client/src/lib/indicators.ts, calcEMA and calcRSI)\<close>

text \<open>
  The second loop of \<open>calcEMA\<close>. The slot \<open>i - 1\<close> it reads was written before, so the
  \<open>NaN\<close> branch is never taken for \<open>period \<ge> 1\<close>; it is there because the array holds
  \<^typ>\<open>real option\<close>.
\<close>

definition emaStep :: "real list \<Rightarrow> real \<Rightarrow> real option list \<Rightarrow> nat \<Rightarrow> real option list" where
  "emaStep vals k result i =
     result[i := (case result ! (i - 1) of
                    None \<Rightarrow> None
                  | Some prev \<Rightarrow> Some (vals ! i * k + prev * (1 - k)))]"

text \<open>
  With \<open>period = 0\<close> the source stores \<open>0 / 0\<close> under the key \<open>-1\<close>, which is no array slot,
  and every slot it then writes is computed from \<open>NaN\<close>: the array stays \<open>NaN\<close>-filled.
\<close>

definition calcEMA :: "real list \<Rightarrow> nat \<Rightarrow> real option list" where
  "calcEMA vals period =
     (if length vals < period then []
      else
        let k = 2 / (real period + 1);
            result = replicate (length vals) None
        in if period = 0 then result
           else
             let total = sum_list (take period vals)
             in foldl (emaStep vals k) (result[period - 1 := Some (total / real period)])
                  [period ..< length vals])"

record RSIPoint =
  rsi_time :: int
  rsi_value :: "real option"

text \<open>The two lines that turn the running averages into an RSI value (they occur twice).\<close>

definition rsiValue :: "real \<Rightarrow> real \<Rightarrow> real" where
  "rsiValue avgGain avgLoss =
     (let rs = (if avgLoss = 0 then 100 else avgGain / avgLoss)
      in 100 - 100 / (1 + rs))"

definition rsiSeedStep :: "real list \<Rightarrow> real \<times> real \<Rightarrow> nat \<Rightarrow> real \<times> real" where
  "rsiSeedStep closes st i =
     (let diff = closes ! i - closes ! (i - 1)
      in if diff > 0 then (fst st + diff, snd st) else (fst st, snd st + \<bar>diff\<bar>))"

text \<open>The state of the smoothing loop: the points pushed so far, \<open>avgGain\<close> and \<open>avgLoss\<close>.\<close>

definition rsiStep ::
  "OHLCBar list \<Rightarrow> real list \<Rightarrow> nat \<Rightarrow> RSIPoint list \<times> real \<times> real \<Rightarrow> nat
     \<Rightarrow> RSIPoint list \<times> real \<times> real" where
  "rsiStep bars closes period st i =
     (let diff = closes ! i - closes ! (i - 1);
          gain = (if diff > 0 then diff else 0);
          loss = (if diff < 0 then \<bar>diff\<bar> else 0);
          avgGain = (fst (snd st) * (real period - 1) + gain) / real period;
          avgLoss = (snd (snd st) * (real period - 1) + loss) / real period
      in (fst st @ [\<lparr>rsi_time = bar_time (bars ! i), rsi_value = Some (rsiValue avgGain avgLoss)\<rparr>],
          avgGain, avgLoss))"

text \<open>
  The state the smoothing loop is in after the bars up to every index: used to speak of the
  running averages at an output position. With \<open>period = 0\<close> the averages are \<open>0 / 0\<close> and
  every value pushed is \<open>NaN\<close>.
\<close>

definition rsiRun :: "OHLCBar list \<Rightarrow> nat \<Rightarrow> RSIPoint list \<times> real \<times> real" where
  "rsiRun bars period =
     (let closes = map bar_close bars;
          seed = foldl (rsiSeedStep closes) (0, 0) [1 ..< Suc period];
          avgGain = fst seed / real period;
          avgLoss = snd seed / real period
      in foldl (rsiStep bars closes period)
           ([\<lparr>rsi_time = bar_time (bars ! period), rsi_value = Some (rsiValue avgGain avgLoss)\<rparr>],
            avgGain, avgLoss)
           [Suc period ..< length bars])"

definition calcRSI :: "OHLCBar list \<Rightarrow> nat \<Rightarrow> RSIPoint list" where
  "calcRSI bars period =
     (if length bars < period + 1 then []
      else if period = 0 then map (\<lambda>b. \<lparr>rsi_time = bar_time b, rsi_value = None\<rparr>) bars
      else fst (rsiRun bars period))"

section \<open>Signal deduplication (signalEngine.ts: dedupKey, isDuplicate, markTriggered)\<close>

datatype SignalType =
    Bollinger_breakout_up | Bollinger_breakout_down | Macd_golden_cross | Macd_death_cross
  | Rsi_oversold_reversal | Rsi_overbought_reversal | Volatility_surge | Large_body_candle
  | Key_level_breakout | Multi_timeframe_resonance | Third_buy_candidate | Third_buy_confirmed

fun timeframeString :: "Timeframe \<Rightarrow> string" where
  "timeframeString TF_1D = ''1D''"
| "timeframeString TF_4H = ''4H''"
| "timeframeString TF_15m = ''15m''"
| "timeframeString TF_1H = ''1H''"
| "timeframeString TF_5m = ''5m''"

fun signalTypeString :: "SignalType \<Rightarrow> string" where
  "signalTypeString Bollinger_breakout_up = ''bollinger_breakout_up''"
| "signalTypeString Bollinger_breakout_down = ''bollinger_breakout_down''"
| "signalTypeString Macd_golden_cross = ''macd_golden_cross''"
| "signalTypeString Macd_death_cross = ''macd_death_cross''"
| "signalTypeString Rsi_oversold_reversal = ''rsi_oversold_reversal''"
| "signalTypeString Rsi_overbought_reversal = ''rsi_overbought_reversal''"
| "signalTypeString Volatility_surge = ''volatility_surge''"
| "signalTypeString Large_body_candle = ''large_body_candle''"
| "signalTypeString Key_level_breakout = ''key_level_breakout''"
| "signalTypeString Multi_timeframe_resonance = ''multi_timeframe_resonance''"
| "signalTypeString Third_buy_candidate = ''third_buy_candidate''"
| "signalTypeString Third_buy_confirmed = ''third_buy_confirmed''"

definition DEDUP_WINDOW_MS :: int where
  "DEDUP_WINDOW_MS = 5 * 60 * 1000"

definition dedupKey :: "string \<Rightarrow> Timeframe \<Rightarrow> SignalType \<Rightarrow> string" where
  "dedupKey symbol timeframe ty =
     symbol @ '':'' @ timeframeString timeframe @ '':'' @ signalTypeString ty"

text \<open>
  \<open>signalHistory\<close> is the module's map from key to last trigger time; \<open>now\<close> is what
  \<open>Date.now()\<close> returns (integer milliseconds). The test \<open>!last\<close> holds for a missing
  entry and for a stored \<open>0\<close>.
\<close>

definition isDuplicate ::
  "(string \<rightharpoonup> int) \<Rightarrow> int \<Rightarrow> string \<Rightarrow> Timeframe \<Rightarrow> SignalType \<Rightarrow> bool" where
  "isDuplicate signalHistory now symbol timeframe ty =
     (case signalHistory (dedupKey symbol timeframe ty) of
        None \<Rightarrow> False
      | Some lst \<Rightarrow> if lst = 0 then False else now - lst < DEDUP_WINDOW_MS)"

definition markTriggered ::
  "(string \<rightharpoonup> int) \<Rightarrow> int \<Rightarrow> string \<Rightarrow> Timeframe \<Rightarrow> SignalType \<Rightarrow> (string \<rightharpoonup> int)" where
  "markTriggered signalHistory now symbol timeframe ty =
     signalHistory(dedupKey symbol timeframe ty \<mapsto> now)"

text \<open>
  \<open>signalHistory\<close> is private to the module, starts empty, and \<open>markTriggered\<close> is its only
  writer: every state it can be in is the result of a sequence of \<open>markTriggered\<close> calls,
  each with its own clock reading. \<open>clockAfterEpoch\<close> says that every reading was taken
  after 1970-01-01T00:00:00.000Z, so that \<open>Date.now()\<close> was positive.
\<close>

record TriggerEvent =
  ev_now :: int
  ev_symbol :: string
  ev_timeframe :: Timeframe
  ev_type :: SignalType

definition applyTrigger :: "(string \<rightharpoonup> int) \<Rightarrow> TriggerEvent \<Rightarrow> (string \<rightharpoonup> int)" where
  "applyTrigger h e = markTriggered h (ev_now e) (ev_symbol e) (ev_timeframe e) (ev_type e)"

definition historyAfter :: "TriggerEvent list \<Rightarrow> (string \<rightharpoonup> int)" where
  "historyAfter events = foldl applyTrigger Map.empty events"


section \<open>The signal store (signalEngine.ts: class SignalStore)\<close>

record KeyLevels =
  zhongshuHigh :: "real option"
  zhongshuLow :: "real option"
  kl_pullbackLow :: "real option"
  kl_confirmPrice :: "real option"

record Signal =
  sig_id :: string
  sig_symbol :: string
  sig_market :: MarketType
  sig_timeframe :: Timeframe
  sig_type :: SignalType
  strength :: real
  sig_price :: real
  sig_time :: int
  description :: string
  keyLevels :: "KeyLevels option"
  acknowledged :: "bool option"

text \<open>
  A subscriber callback is an effect of the environment: it is modelled by a name, and
  calling it with a snapshot is recorded in \<open>calls\<close>, the trace of invocations so far.
  \<open>listeners\<close> is a JavaScript \<open>Set\<close>: insertion-ordered, without repetition.
\<close>

record SignalStore =
  signals :: "Signal list"
  listeners :: "nat list"
  maxSignals :: nat
  calls :: "(nat \<times> Signal list) list"

definition newSignalStore :: SignalStore where
  "newSignalStore = \<lparr>signals = [], listeners = [], maxSignals = 500, calls = []\<rparr>"

definition notify :: "SignalStore \<Rightarrow> SignalStore" where
  "notify st = st\<lparr>calls := calls st @ map (\<lambda>cb. (cb, signals st)) (listeners st)\<rparr>"

definition addSignals :: "Signal list \<Rightarrow> SignalStore \<Rightarrow> SignalStore" where
  "addSignals newSignals st =
     (if length newSignals = 0 then st
      else notify (st\<lparr>signals := take (maxSignals st) (newSignals @ signals st)\<rparr>))"

definition subscribe :: "nat \<Rightarrow> SignalStore \<Rightarrow> SignalStore" where
  "subscribe cb st =
     (if cb \<in> set (listeners st) then st else st\<lparr>listeners := listeners st @ [cb]\<rparr>)"

section \<open>Concrete inputs\<close>

definition mkBar :: "int \<Rightarrow> real \<Rightarrow> real \<Rightarrow> OHLCBar" where
  "mkBar t lo hi =
     \<lparr>bar_time = t, bar_open = lo, bar_high = hi, bar_low = lo, bar_close = hi,
      bar_volume = None\<rparr>"


text \<open>Four bars: the third contains the second, the fourth lies inside the merged bar.\<close>

definition bars4 :: "OHLCBar list" where
  "bars4 = [mkBar 0 1 5, mkBar 60 2 6, mkBar 120 0 7, mkBar 180 3 4, mkBar 240 4 9]"

text \<open>Sixteen bars whose closes rise and never fall: the average loss is zero throughout.\<close>

definition risingBars :: "OHLCBar list" where
  "risingBars = map (\<lambda>i. mkBar (60 * int i) (real i) (real i + 1)) [0 ..< 16]"


definition sampleSignal :: Signal where
  "sampleSignal =
     \<lparr>sig_id = ''s1'', sig_symbol = ''EURUSD'', sig_market = Fx, sig_timeframe = TF_1H,
      sig_type = Macd_golden_cross, strength = 48, sig_price = 1, sig_time = 1000,
      description = ''EURUSD MACD'', keyLevels = None, acknowledged = None\<rparr>"

text \<open>
  Six fractals, five bars apart, whose five bis are all accepted under the default
  parameters; the second triple of bis has no overlap and the third extends the zhongshu
  of the first.
\<close>

definition mkFractal :: "nat \<Rightarrow> real \<Rightarrow> FractalType \<Rightarrow> Fractal" where
  "mkFractal i p t = \<lparr>f_index = i, f_time = 60 * int i, f_price = p, f_type = t\<rparr>"

definition extFractals :: "Fractal list" where
  "extFractals = [mkFractal 1 120 Top, mkFractal 6 100 Bottom, mkFractal 11 110 Top,
                  mkFractal 16 80 Bottom, mkFractal 21 100 Top, mkFractal 26 90 Bottom]"

definition extBis :: "Bi list" where
  "extBis = formBis extFractals [] [] (DEFAULT_PARAMS Fx)"

text \<open>The zhongshu list after the first two iterations of the loop over \<open>extBis\<close>.\<close>

definition extZhongshus :: "Zhongshu list" where
  "extZhongshus = fst (foldl (zhongshuStep extBis) ([], 0) [0 ..< 2])"

text \<open>
  Fourteen bars without containment (too few for any ATR value): fractals at positions
  1, 6, 7 and 12, so the middle pair is one bar apart and is rejected by \<open>minBiKbars = 5\<close>.
\<close>

definition zigzagBars :: "OHLCBar list" where
  "zigzagBars =
     [mkBar 0 10 12, mkBar 60 8 10, mkBar 120 9 11, mkBar 180 10 12, mkBar 240 11 13,
      mkBar 300 12 14, mkBar 360 13 20, mkBar 420 11 16, mkBar 480 12 17, mkBar 540 13 18,
      mkBar 600 14 19, mkBar 660 15 21, mkBar 720 16 25, mkBar 780 15 22]"

definition zigzagBis :: "Bi list" where
  "zigzagBis =
     formBis (detectFractals (processContainment zigzagBars)) (processContainment zigzagBars)
       (calcATR zigzagBars 14) (DEFAULT_PARAMS Fx)"

text \<open>An identifier supply that never repeats.\<close>

definition sampleIds :: idSupply where
  "sampleIds k = ''id'' @ replicate k CHR ''x''"

text \<open>
  Nine bars, run with \<open>minBiKbars = 1\<close>: six alternating bis; the first three form a
  zhongshu with high 18, the fourth breaks out to 26, the fifth pulls back to 20 and the
  sixth confirms at 32.
\<close>

definition confirmBars :: "OHLCBar list" where
  "confirmBars =
     [mkBar 0 10 14, mkBar 60 12 20, mkBar 120 6 12, mkBar 180 10 18, mkBar 240 8 14,
      mkBar 300 22 26, mkBar 360 20 24, mkBar 420 25 32, mkBar 480 24 30]"

definition kbars1 :: PartialParams where
  "kbars1 = noOverrides\<lparr>opt_minBiKbars := Present (Some 1)\<rparr>"

definition confirmParams :: ChanlunParams where
  "confirmParams = spreadParams (DEFAULT_PARAMS Fx) kbars1"

definition confirmRun :: ChanlunResult where
  "confirmRun = fst (runChanlun sampleIds 0 confirmBars Fx ''EURUSD'' TF_1H kbars1)"

text \<open>
  Fourteen bars, run with \<open>minBiKbars = 2\<close>: the bis are down, up, down, up, up. The
  fourth breaks out of the first zhongshu and the bi after it is up again, because the
  fall between them spans one bar only and is rejected.
\<close>

definition stalledBars :: "OHLCBar list" where
  "stalledBars =
     [mkBar 0 10 14, mkBar 60 12 20, mkBar 120 9 16, mkBar 180 6 12, mkBar 240 8 15,
      mkBar 300 10 18, mkBar 360 9 16, mkBar 420 8 14, mkBar 480 12 20, mkBar 540 15 26,
      mkBar 600 14 22, mkBar 660 16 24, mkBar 720 18 30, mkBar 780 17 28]"

definition kbars2 :: PartialParams where
  "kbars2 = noOverrides\<lparr>opt_minBiKbars := Present (Some 2)\<rparr>"

definition stalledParams :: ChanlunParams where
  "stalledParams = spreadParams (DEFAULT_PARAMS Fx) kbars2"

definition stalledRun :: ChanlunResult where
  "stalledRun = fst (runChanlun sampleIds 0 stalledBars Fx ''EURUSD'' TF_1H kbars2)"

text \<open>The override \<open>{minBiKbars: undefined}\<close>: the key is present and holds no number.\<close>

definition kbarsUndefined :: PartialParams where
  "kbarsUndefined = noOverrides\<lparr>opt_minBiKbars := Present None\<rparr>"

section \<open>Predicates of the statements\<close>

text \<open>A bi joins two neighbours of the filtered fractal list and points away from a bottom.\<close>

definition biShape :: "Fractal list \<Rightarrow> Bi \<Rightarrow> bool" where
  "biShape filtered b =
     ((\<exists>j. Suc j < length filtered \<and> startFractal b = filtered ! j
            \<and> endFractal b = filtered ! Suc j)
      \<and> direction b = (if f_type (startFractal b) = Bottom then Up else Down))"

text \<open>A third-buy signal with its random identifier blanked.\<close>

definition stripId :: "ThirdBuySignal \<Rightarrow> ThirdBuySignal" where
  "stripId s = s\<lparr>tb_id := []\<rparr>"

section \<open>Containment processing leaves no adjacent containing pair\<close>

lemma mergeBar_keeps_separated:
  assumes "separated pp prev"
  shows "separated pp (mergeBar (pb_high prev > pb_high pp) i cur prev)"
  using assms by (auto simp: separated_def barContains_def mergeBar_def)

lemma adjacentSeparated_snoc:
  assumes "adjacentSeparated ps" and "ps \<noteq> [] \<Longrightarrow> separated (last ps) b"
  shows "adjacentSeparated (ps @ [b])"
  unfolding adjacentSeparated_def
proof (intro allI impI)
  fix i assume i: "Suc i < length (ps @ [b])"
  show "separated ((ps @ [b]) ! i) ((ps @ [b]) ! Suc i)"
  proof (cases "Suc i < length ps")
    case True
    then show ?thesis using assms(1) by (simp add: adjacentSeparated_def nth_append)
  next
    case False
    with i have e: "Suc i = length ps" by simp
    then have ne: "ps \<noteq> []" by auto
    have "(ps @ [b]) ! i = last ps"
      using e[symmetric] ne by (simp add: nth_append last_conv_nth)
    moreover have "(ps @ [b]) ! Suc i = b" using e by (simp add: nth_append)
    ultimately show ?thesis using assms(2)[OF ne] by simp
  qed
qed

lemma adjacentSeparated_butlast:
  assumes "adjacentSeparated ps"
  shows "adjacentSeparated (butlast ps)"
  using assms by (simp add: adjacentSeparated_def nth_butlast)

lemma containStep_invariant:
  assumes ne: "result \<noteq> []" and inv: "adjacentSeparated result"
  shows "containStep result k cur \<noteq> [] \<and> adjacentSeparated (containStep result k cur)"
proof -
  let ?prev = "last result"
  let ?merge = "(bar_high cur \<ge> pb_high ?prev \<and> bar_low cur \<le> pb_low ?prev)
        \<or> (pb_high ?prev \<ge> bar_high cur \<and> pb_low ?prev \<le> bar_low cur)"
  show ?thesis
  proof (cases ?merge)
    case False
    then have eq: "containStep result k cur = result @ [toProcessed k cur]"
      unfolding containStep_def Let_def by (rule if_not_P)
    have "separated ?prev (toProcessed k cur)"
      using False by (auto simp: separated_def barContains_def toProcessed_def)
    then show ?thesis unfolding eq using inv by (simp add: adjacentSeparated_snoc)
  next
    case True
    let ?up = "if length result \<ge> 2
               then pb_high ?prev > pb_high (result ! (length result - 2)) else True"
    have eq: "containStep result k cur = butlast result @ [mergeBar ?up k cur ?prev]"
      using True unfolding containStep_def Let_def by (rule if_P)
    have "separated (last (butlast result)) (mergeBar ?up k cur ?prev)"
      if b: "butlast result \<noteq> []"
    proof -
      from b have len: "length result \<ge> 2"
        by (cases result rule: rev_cases) (auto simp: Suc_le_eq)
      have l: "last (butlast result) = result ! (length result - 2)"
        using b len by (simp add: last_conv_nth nth_butlast numeral_2_eq_2)
      have p: "?prev = result ! Suc (length result - 2)"
        using ne len by (simp add: last_conv_nth Suc_diff_Suc numeral_2_eq_2)
      have "separated (result ! (length result - 2)) ?prev"
        unfolding p using inv len by (simp add: adjacentSeparated_def)
      from mergeBar_keeps_separated[OF this, of k cur] show ?thesis
        using len l by simp
    qed
    then show ?thesis unfolding eq
      using adjacentSeparated_butlast[OF inv] by (simp add: adjacentSeparated_snoc)
  qed
qed

lemma containLoop_invariant:
  "result \<noteq> [] \<Longrightarrow> adjacentSeparated result \<Longrightarrow>
     containLoop i rest result \<noteq> [] \<and> adjacentSeparated (containLoop i rest result)"
proof (induction rest arbitrary: i result)
  case Nil
  then show ?case by simp
next
  case (Cons cur rest)
  from containStep_invariant[OF Cons.prems, of i cur]
  show ?case using Cons.IH[of "containStep result i cur" "Suc i"] by simp
qed

text \<open>
  Claim C1. For every bar sequence, no two neighbours of the output of
  \<open>processContainment\<close> are in the containment relation (either way, with the source's
  non-strict comparisons), although a merge rewrites the high and low of the tail bar
  after it was appended.
\<close>

theorem processContainment_no_adjacent_containment:
  "adjacentSeparated (processContainment bars)"
proof (cases bars)
  case Nil
  then show ?thesis by (simp add: processContainment_def adjacentSeparated_def)
next
  case (Cons b0 rest)
  have "adjacentSeparated [toProcessed 0 b0]" by (simp add: adjacentSeparated_def)
  with containLoop_invariant[of "[toProcessed 0 b0]" 1 rest] show ?thesis
    using Cons by (simp add: processContainment_def)
qed

lemma processContainment_bars4:
  "processContainment bars4 =
     [\<lparr>originalIndex = 0, pb_time = 0, pb_high = 5, pb_low = 1, pb_close = 5\<rparr>,
      \<lparr>originalIndex = 3, pb_time = 60, pb_high = 7, pb_low = 3, pb_close = 4\<rparr>,
      \<lparr>originalIndex = 4, pb_time = 240, pb_high = 9, pb_low = 4, pb_close = 9\<rparr>]"
  by (simp add: bars4_def mkBar_def processContainment_def containStep_def mergeBar_def
      toProcessed_def Let_def)

theorem processContainment_no_adjacent_containment_witness:
  "Suc 0 < length (processContainment bars4)
   \<and> separated (processContainment bars4 ! 0) (processContainment bars4 ! Suc 0)"
proof -
  have len: "Suc 0 < length (processContainment bars4)"
    by (simp add: processContainment_bars4)
  from processContainment_no_adjacent_containment[of bars4]
  have "\<forall>i. Suc i < length (processContainment bars4) \<longrightarrow>
          separated (processContainment bars4 ! i) (processContainment bars4 ! Suc i)"
    by (simp only: adjacentSeparated_def)
  with len show ?thesis by blast
qed

section \<open>The signal store: empty batches\<close>

text \<open>
  Claim C10. \<open>addSignals\<close> with an empty batch leaves the store as it is: the buffer is
  unchanged and no subscriber callback is invoked. A call that invokes a callback had a
  non-empty batch, and a non-empty batch invokes every subscriber once, in subscription
  order, with the new buffer.
\<close>

theorem addSignals_empty_batch:
  "addSignals [] st = st
   \<and> signals (addSignals [] st) = signals st
   \<and> calls (addSignals [] st) = calls st
   \<and> (calls (addSignals batch st) \<noteq> calls st \<longrightarrow> batch \<noteq> [])
   \<and> (batch \<noteq> [] \<longrightarrow>
        calls (addSignals batch st)
          = calls st @ map (\<lambda>cb. (cb, take (maxSignals st) (batch @ signals st))) (listeners st))"
  by (simp add: addSignals_def notify_def)

theorem addSignals_empty_batch_witness:
  "calls (addSignals [sampleSignal] (subscribe 7 newSignalStore))
     \<noteq> calls (subscribe 7 newSignalStore)
   \<and> [sampleSignal] \<noteq> []
   \<and> calls (addSignals [sampleSignal] (subscribe 7 newSignalStore)) = [(7, [sampleSignal])]
   \<and> calls (addSignals [] (subscribe 7 newSignalStore)) = []"
proof -
  have st: "calls (subscribe 7 newSignalStore) = []
      \<and> listeners (subscribe 7 newSignalStore) = [7]
      \<and> signals (subscribe 7 newSignalStore) = []
      \<and> maxSignals (subscribe 7 newSignalStore) = 500"
    by (simp add: subscribe_def newSignalStore_def)
  have ne: "[sampleSignal] \<noteq> []" by simp
  from addSignals_empty_batch[of "subscribe 7 newSignalStore" "[sampleSignal]"] ne st
  show ?thesis by simp
qed

section \<open>The deduplication window\<close>



text \<open>
  The test \<open>!last\<close> also holds for a stored time of \<open>0\<close>: a trigger recorded by a clock
  reading of exactly \<open>0\<close> would not block the next emission. No state reached with a
  clock after the epoch holds such an entry.
\<close>

lemma isDuplicate_zero_timestamp:
  "markTriggered Map.empty 0 ''EURUSD'' TF_1H Macd_golden_cross
       (dedupKey ''EURUSD'' TF_1H Macd_golden_cross) = Some 0
   \<and> 60000 - 0 < DEDUP_WINDOW_MS
   \<and> isDuplicate (markTriggered Map.empty 0 ''EURUSD'' TF_1H Macd_golden_cross) 60000
        ''EURUSD'' TF_1H Macd_golden_cross = False"
  by (simp add: isDuplicate_def markTriggered_def DEDUP_WINDOW_MS_def)



lemma historyAfter_last_trigger:
  "historyAfter (events @ [e]) (dedupKey (ev_symbol e) (ev_timeframe e) (ev_type e))
     = Some (ev_now e)"
  by (simp add: historyAfter_def applyTrigger_def markTriggered_def)



section \<open>RSI at zero average loss\<close>

lemma rsiValue_zero_loss: "rsiValue g 0 = 10000 / 101"
  by (simp add: rsiValue_def)

lemma rsiValue_zero_loss_below_100: "rsiValue g 0 < 100"
  by (simp add: rsiValue_def)

text \<open>
  The value at the last output position is computed from the running averages the loop
  ends with; when the average loss there is zero it is \<open>10000 / 101\<close>.
\<close>

lemma rsiLoop_last_value:
  assumes "fst st \<noteq> []"
    and "rsi_value (last (fst st)) = Some (rsiValue (fst (snd st)) (snd (snd st)))"
  shows "rsi_value (last (fst (foldl (rsiStep bars closes period) st idxs)))
           = Some (rsiValue (fst (snd (foldl (rsiStep bars closes period) st idxs)))
                            (snd (snd (foldl (rsiStep bars closes period) st idxs))))
       \<and> fst (foldl (rsiStep bars closes period) st idxs) \<noteq> []"
  using assms
proof (induction idxs arbitrary: st)
  case Nil
  then show ?case by simp
next
  case (Cons i idxs)
  show ?case
    unfolding foldl_Cons
    by (rule Cons.IH) (simp_all add: rsiStep_def Let_def)
qed

lemma calcRSI_last_value:
  assumes "0 < period" and "period < length bars"
  shows "rsi_value (last (calcRSI bars period))
           = Some (rsiValue (fst (snd (rsiRun bars period))) (snd (snd (rsiRun bars period))))"
  using assms rsiLoop_last_value[of _ bars "map bar_close bars" period]
  by (simp add: calcRSI_def rsiRun_def Let_def)

lemma calcRSI_zero_loss_value:
  assumes "0 < period" and "period < length bars" and "snd (snd (rsiRun bars period)) = 0"
  shows "rsi_value (last (calcRSI bars period)) = Some (10000 / 101)"
  using calcRSI_last_value[OF assms(1,2)] assms(3) by (simp add: rsiValue_def)

text \<open>
  Claim C6. The claim says the RSI value is 100 wherever the running average loss is 0.
  Evaluated on the code with sixteen rising closes: the average loss is 0 at the seed
  position and at the position after it, and both values are \<open>10000 / 101\<close>, about 99.01.
\<close>

theorem calcRSI_rising_bars:
  "snd (snd (rsiRun (take 15 risingBars) 14)) = 0
   \<and> snd (snd (rsiRun risingBars 14)) = 0
   \<and> map rsi_value (calcRSI risingBars 14) = [Some (10000 / 101), Some (10000 / 101)]"
  by code_simp

section \<open>The length of the EMA array\<close>

lemma emaStep_length: "length (emaStep vals k result i) = length result"
  by (simp add: emaStep_def)

lemma emaStep_other: "j \<noteq> i \<Longrightarrow> emaStep vals k result i ! j = result ! j"
  by (simp add: emaStep_def)

lemma emaLoop_length: "length (foldl (emaStep vals k) result idxs) = length result"
  by (induction idxs arbitrary: result) (simp_all add: emaStep_length)

lemma emaLoop_untouched:
  "j \<notin> set idxs \<Longrightarrow> foldl (emaStep vals k) result idxs ! j = result ! j"
  by (induction idxs arbitrary: result) (simp_all add: emaStep_other)

text \<open>
  Claim C7, as stated, fails: for an input shorter than the period \<open>calcEMA\<close> returns the
  empty array, not an array of the input's length.
\<close>

theorem calcEMA_short_input_counterexample:
  "length (calcEMA [1, 2] 3) \<noteq> length [1, 2 :: real]"
  by (simp add: calcEMA_def)

text \<open>
  Claim C7, amended. For an input shorter than the period the result is empty; for every
  input at least \<open>period\<close> long the result has the input's length and holds \<open>NaN\<close> at every
  position before index \<open>period - 1\<close>.
\<close>

theorem calcEMA_length:
  "(length vals < period \<longrightarrow> calcEMA vals period = [])
   \<and> (period \<le> length vals \<longrightarrow>
        length (calcEMA vals period) = length vals
        \<and> (\<forall>i. i + 1 < period \<longrightarrow> calcEMA vals period ! i = None))"
proof (intro conjI impI allI)
  assume "length vals < period"
  then show "calcEMA vals period = []" by (simp add: calcEMA_def)
next
  assume "period \<le> length vals"
  then show "length (calcEMA vals period) = length vals"
    by (simp add: calcEMA_def Let_def emaLoop_length)
next
  fix i
  assume le: "period \<le> length vals" and i: "i + 1 < period"
  then have "i \<notin> set [period ..< length vals]" and "i \<noteq> period - 1" and "i < length vals"
    by auto
  then show "calcEMA vals period ! i = None"
    using le i by (simp add: calcEMA_def Let_def emaLoop_untouched)
qed

theorem calcEMA_length_witness:
  "\<not> length [1, 2, 3, 4 :: real] < 3 \<and> 3 \<le> length [1, 2, 3, 4 :: real]
   \<and> length (calcEMA [1, 2, 3, 4] 3) = 4
   \<and> (0::nat) + 1 < 3 \<and> calcEMA [1, 2, 3, 4] 3 ! 0 = None
   \<and> length [1, 2 :: real] < 3 \<and> calcEMA [1, 2] 3 = []"
proof -
  have a: "(3::nat) \<le> length [1, 2, 3, 4 :: real]" and b: "(0::nat) + 1 < 3"
    and c: "length [1, 2 :: real] < 3" by simp_all
  from calcEMA_length[of "[1, 2, 3, 4]" 3] a b calcEMA_length[of "[1, 2]" 3] c
  show ?thesis by simp
qed

section \<open>Extending a zhongshu\<close>

text \<open>
  No iteration, and so no run of the loop, changes the high, low, id, start time or active
  flag of a zhongshu that is already in the list.
\<close>

lemma zhongshuStep_keeps:
  assumes "k < length (fst st)"
  shows "k < length (fst (zhongshuStep bis st i))
       \<and> z_high (fst (zhongshuStep bis st i) ! k) = z_high (fst st ! k)
       \<and> z_low (fst (zhongshuStep bis st i) ! k) = z_low (fst st ! k)
       \<and> z_id (fst (zhongshuStep bis st i) ! k) = z_id (fst st ! k)
       \<and> startTime (fst (zhongshuStep bis st i) ! k) = startTime (fst st ! k)
       \<and> isActive (fst (zhongshuStep bis st i) ! k) = isActive (fst st ! k)"
proof -
  have "fst st \<noteq> []" using assms by auto
  then have l: "last (fst st) = fst st ! (length (fst st) - 1)"
    by (simp add: last_conv_nth)
  show ?thesis
    using assms l
    by (auto simp: zhongshuStep_def Let_def extendLast_def nth_list_update nth_append)
qed

lemma zhongshuLoop_keeps:
  assumes "k < length (fst st)"
  shows "k < length (fst (foldl (zhongshuStep bis) st idxs))
       \<and> z_high (fst (foldl (zhongshuStep bis) st idxs) ! k) = z_high (fst st ! k)
       \<and> z_low (fst (foldl (zhongshuStep bis) st idxs) ! k) = z_low (fst st ! k)
       \<and> z_id (fst (foldl (zhongshuStep bis) st idxs) ! k) = z_id (fst st ! k)
       \<and> startTime (fst (foldl (zhongshuStep bis) st idxs) ! k) = startTime (fst st ! k)
       \<and> isActive (fst (foldl (zhongshuStep bis) st idxs) ! k) = isActive (fst st ! k)"
  using assms
proof (induction idxs arbitrary: st)
  case Nil
  then show ?case by simp
next
  case (Cons i idxs)
  from zhongshuStep_keeps[OF Cons.prems, of bis i]
  show ?case using Cons.IH[of "zhongshuStep bis st i"] by simp
qed

lemma zhongshuStep_extend:
  assumes "tripleLow bis i < tripleHigh bis i" and "canExtend zs (bis ! i) (bis ! (i + 2))"
  shows "zhongshuStep bis (zs, zId) i = (extendLast zs (bis ! (i + 2)), zId)"
  using assms by (simp add: zhongshuStep_def Let_def)

text \<open>
  Claim C9. When an iteration of \<open>detectZhongshu\<close> takes the extension branch (the triple
  overlaps and the guard \<open>canExtend\<close> holds), the counter and the length of the list are
  unchanged, every zhongshu keeps its high, low, id, start time and active flag, every
  zhongshu but the last is unchanged altogether, and the last one gets the end time of the
  triple's third bi and that bi's id appended to its \<open>biIds\<close>.
\<close>

theorem zhongshuStep_extension_frame:
  assumes "tripleLow bis i < tripleHigh bis i"
      and "canExtend zs (bis ! i) (bis ! (i + 2))"
      and "k < length zs"
  shows "snd (zhongshuStep bis (zs, zId) i) = zId
       \<and> length (fst (zhongshuStep bis (zs, zId) i)) = length zs
       \<and> z_high (fst (zhongshuStep bis (zs, zId) i) ! k) = z_high (zs ! k)
       \<and> z_low (fst (zhongshuStep bis (zs, zId) i) ! k) = z_low (zs ! k)
       \<and> z_id (fst (zhongshuStep bis (zs, zId) i) ! k) = z_id (zs ! k)
       \<and> startTime (fst (zhongshuStep bis (zs, zId) i) ! k) = startTime (zs ! k)
       \<and> isActive (fst (zhongshuStep bis (zs, zId) i) ! k) = isActive (zs ! k)
       \<and> (Suc k < length zs \<longrightarrow> fst (zhongshuStep bis (zs, zId) i) ! k = zs ! k)
       \<and> endTime (last (fst (zhongshuStep bis (zs, zId) i))) = f_time (endFractal (bis ! (i + 2)))
       \<and> biIds (last (fst (zhongshuStep bis (zs, zId) i)))
           = biIds (last zs) @ [bi_id (bis ! (i + 2))]"
proof -
  have ne: "zs \<noteq> []" using assms(3) by auto
  have l: "last zs = zs ! (length zs - 1)" using ne by (simp add: last_conv_nth)
  show ?thesis
    unfolding zhongshuStep_extend[OF assms(1,2)]
    using assms(3) ne l
    by (auto simp: extendLast_def nth_list_update last_conv_nth)
qed

theorem zhongshuStep_extension_frame_witness:
  "tripleLow extBis 2 < tripleHigh extBis 2
   \<and> canExtend extZhongshus (extBis ! 2) (extBis ! (2 + 2))
   \<and> (0::nat) < length extZhongshus
   \<and> z_high (fst (zhongshuStep extBis (extZhongshus, 1) 2) ! 0) = z_high (extZhongshus ! 0)
   \<and> z_low (fst (zhongshuStep extBis (extZhongshus, 1) 2) ! 0) = z_low (extZhongshus ! 0)
   \<and> biIds (last (fst (zhongshuStep extBis (extZhongshus, 1) 2)))
        = biIds (last extZhongshus) @ [bi_id (extBis ! (2 + 2))]
   \<and> biIds (last extZhongshus) @ [bi_id (extBis ! (2 + 2))] = [0, 1, 2, 4]
   \<and> detectZhongshu extBis = fst (zhongshuStep extBis (extZhongshus, 1) 2)"
proof -
  have h1: "tripleLow extBis 2 < tripleHigh extBis 2" by code_simp
  have h2: "canExtend extZhongshus (extBis ! 2) (extBis ! (2 + 2))" by code_simp
  have h3: "(0::nat) < length extZhongshus" by code_simp
  have e1: "biIds (last extZhongshus) @ [bi_id (extBis ! (2 + 2))] = [0, 1, 2, 4]" by code_simp
  have e2: "detectZhongshu extBis = fst (zhongshuStep extBis (extZhongshus, 1) 2)" by code_simp
  from zhongshuStep_extension_frame[OF h1 h2 h3, of 1] h1 h2 h3 e1 e2
  show ?thesis by blast
qed

section \<open>Directions along the bi list\<close>

lemma filterStep_alternating:
  assumes "filtered \<noteq> []" and "distinct_adj (map f_type filtered)"
  shows "filterStep filtered cur \<noteq> [] \<and> distinct_adj (map f_type (filterStep filtered cur))"
proof -
  have same: "map f_type (filtered[length filtered - 1 := cur]) = map f_type filtered"
    if "f_type cur = f_type (last filtered)"
    using that assms(1)
    by (simp add: map_update last_conv_nth list_update_same_conv)
  have app: "distinct_adj (map f_type (filtered @ [cur]))"
    if "f_type cur \<noteq> f_type (last filtered)"
    using that assms by (simp add: distinct_adj_append_iff last_map)
  show ?thesis
    using same app assms by (auto simp: filterStep_def Let_def)
qed

lemma filterLoop_alternating:
  "filtered \<noteq> [] \<Longrightarrow> distinct_adj (map f_type filtered) \<Longrightarrow>
     distinct_adj (map f_type (foldl filterStep filtered rest))"
proof (induction rest arbitrary: filtered)
  case Nil
  then show ?case by simp
next
  case (Cons cur rest)
  from filterStep_alternating[OF Cons.prems, of cur] show ?case
    using Cons.IH[of "filterStep filtered cur"] by simp
qed

lemma filterFractals_alternating: "distinct_adj (map f_type (filterFractals fractals))"
  by (cases fractals) (simp_all add: filterFractals_def filterLoop_alternating)

lemma biStep_shape:
  assumes "\<forall>b \<in> set (fst st). biShape filtered b" and "Suc i < length filtered"
  shows "\<forall>b \<in> set (fst (biStep atrValues params filtered st i)). biShape filtered b"
  using assms by (auto simp: biStep_def Let_def biShape_def)

lemma biLoop_shape:
  "\<forall>b \<in> set (fst st). biShape filtered b \<Longrightarrow> \<forall>i \<in> set idxs. Suc i < length filtered \<Longrightarrow>
     \<forall>b \<in> set (fst (foldl (biStep atrValues params filtered) st idxs)). biShape filtered b"
proof (induction idxs arbitrary: st)
  case Nil
  then show ?case by simp
next
  case (Cons i idxs)
  have "\<forall>b \<in> set (fst (biStep atrValues params filtered st i)). biShape filtered b"
    using Cons.prems by (intro biStep_shape) simp_all
  then show ?case using Cons.IH Cons.prems(2) by simp
qed

lemma formBis_shape:
  assumes "b \<in> set (formBis fractals processed atrValues params)"
  shows "biShape (filterFractals fractals) b"
proof -
  have "\<forall>i \<in> set [0 ..< length (filterFractals fractals) - 1].
          Suc i < length (filterFractals fractals)" by auto
  from biLoop_shape[of "([], 0)" "filterFractals fractals", OF _ this] assms
  show ?thesis by (auto simp: formBis_def Let_def split: if_splits)
qed

lemma formBis_bi_ends:
  assumes "b \<in> set (formBis fractals processed atrValues params)"
  shows "f_type (endFractal b) \<noteq> f_type (startFractal b)
       \<and> (direction b = Up) = (f_type (startFractal b) = Bottom)"
proof -
  from formBis_shape[OF assms] obtain j where
    j: "Suc j < length (filterFractals fractals)"
       "startFractal b = filterFractals fractals ! j"
       "endFractal b = filterFractals fractals ! Suc j"
    and d: "direction b = (if f_type (startFractal b) = Bottom then Up else Down)"
    by (auto simp: biShape_def)
  from distinct_adj_nth[OF filterFractals_alternating, of j fractals] j
  have "f_type (endFractal b) \<noteq> f_type (startFractal b)" by simp
  with d show ?thesis by simp
qed

text \<open>
  Claim C5, as stated, fails: on \<open>zigzagBars\<close> with the default parameters \<open>formBis\<close>
  returns two bis and both are up, the down pair between them having been rejected.
\<close>

theorem formBis_same_direction_counterexample:
  "length zigzagBis = 2 \<and> direction (zigzagBis ! 0) = Up \<and> direction (zigzagBis ! 1) = Up"
  by code_simp

text \<open>
  Claim C5, amended. Two consecutive bis of the list produced by \<open>formBis\<close> have different
  directions whenever the second starts at the fractal where the first ends, that is,
  whenever no fractal pair between them was rejected.
\<close>

theorem formBis_chained_directions_alternate:
  assumes "Suc k < length (formBis fractals processed atrValues params)"
      and "startFractal (formBis fractals processed atrValues params ! Suc k)
             = endFractal (formBis fractals processed atrValues params ! k)"
  shows "direction (formBis fractals processed atrValues params ! Suc k)
           \<noteq> direction (formBis fractals processed atrValues params ! k)"
proof -
  let ?bs = "formBis fractals processed atrValues params"
  have a: "?bs ! k \<in> set ?bs" and b: "?bs ! Suc k \<in> set ?bs" using assms(1) by simp_all
  from formBis_bi_ends[OF a] formBis_bi_ends[OF b] assms(2)
  show ?thesis by (cases "f_type (startFractal (?bs ! k))"; cases "f_type (endFractal (?bs ! k))") auto
qed

theorem formBis_chained_directions_alternate_witness:
  "Suc 0 < length (formBis extFractals [] [] (DEFAULT_PARAMS Fx))
   \<and> startFractal (formBis extFractals [] [] (DEFAULT_PARAMS Fx) ! Suc 0)
       = endFractal (formBis extFractals [] [] (DEFAULT_PARAMS Fx) ! 0)
   \<and> direction (formBis extFractals [] [] (DEFAULT_PARAMS Fx) ! Suc 0)
       \<noteq> direction (formBis extFractals [] [] (DEFAULT_PARAMS Fx) ! 0)"
proof -
  have h1: "Suc 0 < length (formBis extFractals [] [] (DEFAULT_PARAMS Fx))" by code_simp
  have h2: "startFractal (formBis extFractals [] [] (DEFAULT_PARAMS Fx) ! Suc 0)
              = endFractal (formBis extFractals [] [] (DEFAULT_PARAMS Fx) ! 0)" by code_simp
  from formBis_chained_directions_alternate[OF h1 h2] h1 h2 show ?thesis by blast
qed

section \<open>Third-buy detection: what is emitted for a zhongshu\<close>

lemma thirdBuyFor_zhongshu:
  assumes "s \<in> set (fst (thirdBuyFor ids bis atrValues params symbol timeframe market z n))"
  shows "tb_zhongshu s = z"
  using assms
  by (auto simp: thirdBuyFor_def Let_def breakoutCandidate_def heldCandidate_def
      split: option.splits if_splits)

lemma thirdBuyLoop_origin:
  assumes "s \<in> set (fst (foldl (thirdBuyStep ids bis atrValues params symbol timeframe market) st zs))"
  shows "s \<in> set (fst st)
       \<or> (\<exists>z \<in> set zs. \<exists>m. s \<in> set (fst (thirdBuyFor ids bis atrValues params symbol timeframe market z m)))"
  using assms
proof (induction zs arbitrary: st)
  case Nil
  then show ?case by simp
next
  case (Cons z zs)
  from Cons.IH[of "thirdBuyStep ids bis atrValues params symbol timeframe market st z"] Cons.prems
  show ?case by (auto simp: thirdBuyStep_def Let_def)
qed

lemma detectThirdBuys_origin:
  assumes "s \<in> set (fst (detectThirdBuys ids n bis zs atrValues params symbol timeframe market))"
  shows "\<exists>z \<in> set zs. \<exists>m. s \<in> set (fst (thirdBuyFor ids bis atrValues params symbol timeframe market z m))"
  using thirdBuyLoop_origin[of s ids bis atrValues params symbol timeframe market "([], n)" zs] assms
  by (simp add: detectThirdBuys_def)

lemma thirdBuyLoop_keeps:
  "set (fst st) \<subseteq> set (fst (foldl (thirdBuyStep ids bis atrValues params symbol timeframe market) st zs))"
proof (induction zs arbitrary: st)
  case Nil
  then show ?case by simp
next
  case (Cons z zs)
  have "set (fst st)
          \<subseteq> set (fst (thirdBuyStep ids bis atrValues params symbol timeframe market st z))"
    by (simp add: thirdBuyStep_def Let_def)
  with Cons.IH[of "thirdBuyStep ids bis atrValues params symbol timeframe market st z"]
  show ?case by auto
qed

lemma thirdBuyLoop_contains:
  assumes "z \<in> set zs"
  shows "\<exists>m. set (fst (thirdBuyFor ids bis atrValues params symbol timeframe market z m))
            \<subseteq> set (fst (foldl (thirdBuyStep ids bis atrValues params symbol timeframe market) st zs))"
  using assms
proof (induction zs arbitrary: st)
  case Nil
  then show ?case by simp
next
  case (Cons y zs)
  show ?case
  proof (cases "z = y")
    case True
    have "set (fst (thirdBuyFor ids bis atrValues params symbol timeframe market z (snd st)))
            \<subseteq> set (fst (thirdBuyStep ids bis atrValues params symbol timeframe market st y))"
      using True by (simp add: thirdBuyStep_def Let_def)
    with thirdBuyLoop_keeps[of "thirdBuyStep ids bis atrValues params symbol timeframe market st y"
        ids bis atrValues params symbol timeframe market zs]
    show ?thesis by (intro exI[of _ "snd st"]) auto
  next
    case False
    with Cons.prems have "z \<in> set zs" by simp
    from Cons.IH[OF this, of "thirdBuyStep ids bis atrValues params symbol timeframe market st y"]
    show ?thesis by simp
  qed
qed

lemma detectThirdBuys_contains:
  assumes "z \<in> set zs"
  shows "\<exists>m. set (fst (thirdBuyFor ids bis atrValues params symbol timeframe market z m))
            \<subseteq> set (fst (detectThirdBuys ids n bis zs atrValues params symbol timeframe market))"
  using thirdBuyLoop_contains[OF assms] by (simp add: detectThirdBuys_def)

lemma thirdBuy_no_following_bi:
  assumes "breakoutIndex atrValues params bis z = Some k" and "length bis \<le> k + 1"
  shows "thirdBuyFor ids bis atrValues params symbol timeframe market z n
           = ([breakoutCandidate (ids n) z (bis ! k) symbol timeframe market], Suc n)"
  using assms by (simp add: thirdBuyFor_def Let_def)

text \<open>
  Claim C2, as stated, fails: in the run on \<open>stalledBars\<close> the bi at position 3 breaks out
  of the first zhongshu, the bi after it is up, and the result holds no signal for that
  zhongshu.
\<close>

theorem thirdBuy_following_bi_not_down_counterexample:
  "breakoutIndex (calcATR stalledBars 14) stalledParams (res_bis stalledRun)
      (res_zhongshus stalledRun ! 0) = Some 3
   \<and> 3 + 1 < length (res_bis stalledRun)
   \<and> direction (res_bis stalledRun ! (3 + 1)) = Up
   \<and> filter (\<lambda>s. tb_zhongshu s = res_zhongshus stalledRun ! 0) (res_thirdBuys stalledRun) = []"
  by code_simp

text \<open>
  Claim C2, amended. For every zhongshu whose breakout bi is followed by a bi that is not
  down-directed, the loop body emits nothing and draws no identifier, and the result of
  \<open>detectThirdBuys\<close> holds no signal for that zhongshu.
\<close>

theorem thirdBuy_following_bi_not_down:
  assumes "breakoutIndex atrValues params bis z = Some k"
      and "k + 1 < length bis"
      and "direction (bis ! (k + 1)) \<noteq> Down"
  shows "thirdBuyFor ids bis atrValues params symbol timeframe market z n = ([], n)
       \<and> (\<forall>s \<in> set (fst (detectThirdBuys ids n bis zs atrValues params symbol timeframe market)).
             tb_zhongshu s \<noteq> z)"
proof -
  have none: "thirdBuyFor ids bis atrValues params symbol timeframe market z m = ([], m)" for m
    using assms by (simp add: thirdBuyFor_def Let_def)
  have "tb_zhongshu s \<noteq> z"
    if "s \<in> set (fst (detectThirdBuys ids n bis zs atrValues params symbol timeframe market))" for s
  proof
    assume eq: "tb_zhongshu s = z"
    from detectThirdBuys_origin[OF that] obtain z' m where
      s: "s \<in> set (fst (thirdBuyFor ids bis atrValues params symbol timeframe market z' m))"
      by blast
    from thirdBuyFor_zhongshu[OF s] eq have "z' = z" by simp
    with s none[of m] show False by simp
  qed
  with none[of n] show ?thesis by blast
qed

theorem thirdBuy_following_bi_not_down_witness:
  "breakoutIndex (calcATR stalledBars 14) stalledParams (res_bis stalledRun)
      (res_zhongshus stalledRun ! 0) = Some 3
   \<and> 3 + 1 < length (res_bis stalledRun)
   \<and> direction (res_bis stalledRun ! (3 + 1)) \<noteq> Down
   \<and> thirdBuyFor sampleIds (res_bis stalledRun) (calcATR stalledBars 14) stalledParams
        ''EURUSD'' TF_1H Fx (res_zhongshus stalledRun ! 0) 0 = ([], 0)"
proof -
  have h1: "breakoutIndex (calcATR stalledBars 14) stalledParams (res_bis stalledRun)
              (res_zhongshus stalledRun ! 0) = Some 3" by code_simp
  have h2: "3 + 1 < length (res_bis stalledRun)" by code_simp
  have h3: "direction (res_bis stalledRun ! (3 + 1)) \<noteq> Down" by code_simp
  from thirdBuy_following_bi_not_down[OF h1 h2 h3, where ids = sampleIds and n = 0
      and symbol = "''EURUSD''" and timeframe = TF_1H and market = Fx] h1 h2 h3
  show ?thesis by blast
qed

text \<open>
  Claim C4, as stated, fails: in the run on \<open>confirmBars\<close> the first zhongshu passes the
  confirmation check, and the only signal the result holds for it is the confirmed one.
\<close>

theorem thirdBuy_confirmed_only_counterexample:
  "breakoutIndex (calcATR confirmBars 14) confirmParams (res_bis confirmRun)
      (res_zhongshus confirmRun ! 0) = Some 3
   \<and> confirmationPasses confirmParams
        (res_bis confirmRun ! 3) (res_bis confirmRun ! 4) (res_bis confirmRun ! 5)
   \<and> map tb_status (filter (\<lambda>s. tb_zhongshu s = res_zhongshus confirmRun ! 0)
        (res_thirdBuys confirmRun)) = [Confirmed]"
  by code_simp

text \<open>
  Claim C4, amended. Whenever a third-buy passes the confirmation check, the loop body
  emits exactly one signal for that zhongshu: the confirmed one, which is the held
  candidate with a second identifier, status \<open>confirmed\<close> and the confirm time and price.
  Every signal the result of \<open>detectThirdBuys\<close> holds for that zhongshu is such a confirmed
  signal, and when the zhongshu is in the list given to \<open>detectThirdBuys\<close> the result
  does hold one, with the breakout price, the pullback low and the confirm time and price;
  the held candidate is not in the result.
\<close>

theorem thirdBuy_confirmed_only:
  assumes "breakoutIndex atrValues params bis z = Some k"
      and "k + 2 < length bis"
      and "direction (bis ! (k + 1)) = Down"
      and "\<not> pullbackEntered atrValues params z (bis ! (k + 1))"
      and "direction (bis ! (k + 2)) = Up"
      and "confirmationPasses params (bis ! k) (bis ! (k + 1)) (bis ! (k + 2))"
  shows "thirdBuyFor ids bis atrValues params symbol timeframe market z n
           = ([(heldCandidate (ids n) z (bis ! k) (bis ! (k + 1)) symbol timeframe market)
                 \<lparr>tb_id := ids (Suc n), tb_status := Confirmed,
                  confirmTime := Some (f_time (endFractal (bis ! (k + 2)))),
                  confirmPrice := Some (f_price (endFractal (bis ! (k + 2))))\<rparr>],
              Suc (Suc n))
       \<and> (\<forall>s \<in> set (fst (detectThirdBuys ids n bis zs atrValues params symbol timeframe market)).
             tb_zhongshu s = z \<longrightarrow>
               tb_status s = Confirmed
               \<and> (\<exists>m. s = (heldCandidate (ids m) z (bis ! k) (bis ! (k + 1)) symbol timeframe market)
                            \<lparr>tb_id := ids (Suc m), tb_status := Confirmed,
                             confirmTime := Some (f_time (endFractal (bis ! (k + 2)))),
                             confirmPrice := Some (f_price (endFractal (bis ! (k + 2))))\<rparr>))
       \<and> (z \<in> set zs \<longrightarrow>
            (\<exists>s \<in> set (fst (detectThirdBuys ids n bis zs atrValues params symbol timeframe market)).
               tb_zhongshu s = z \<and> tb_status s = Confirmed
               \<and> breakoutPrice s = f_price (endFractal (bis ! k))
               \<and> pullbackLow s = Some (f_price (endFractal (bis ! (k + 1))))
               \<and> confirmTime s = Some (f_time (endFractal (bis ! (k + 2))))
               \<and> confirmPrice s = Some (f_price (endFractal (bis ! (k + 2))))))"
proof -
  let ?sig = "\<lambda>m. (heldCandidate (ids m) z (bis ! k) (bis ! (k + 1)) symbol timeframe market)
                 \<lparr>tb_id := ids (Suc m), tb_status := Confirmed,
                  confirmTime := Some (f_time (endFractal (bis ! (k + 2)))),
                  confirmPrice := Some (f_price (endFractal (bis ! (k + 2))))\<rparr>"
  let ?res = "fst (detectThirdBuys ids n bis zs atrValues params symbol timeframe market)"
  have one: "thirdBuyFor ids bis atrValues params symbol timeframe market z m
           = ([?sig m], Suc (Suc m))" for m
    using assms by (simp add: thirdBuyFor_def Let_def)
  have all: "tb_status s = Confirmed \<and> (\<exists>m. s = ?sig m)"
    if "s \<in> set ?res" and eq: "tb_zhongshu s = z" for s
  proof -
    from detectThirdBuys_origin[OF that(1)] obtain z' m where
      s: "s \<in> set (fst (thirdBuyFor ids bis atrValues params symbol timeframe market z' m))"
      by blast
    from thirdBuyFor_zhongshu[OF s] eq have "z' = z" by simp
    with s one[of m] have "s = ?sig m" by simp
    then show ?thesis by auto
  qed
  have ex: "\<exists>s \<in> set ?res. tb_zhongshu s = z \<and> tb_status s = Confirmed
               \<and> breakoutPrice s = f_price (endFractal (bis ! k))
               \<and> pullbackLow s = Some (f_price (endFractal (bis ! (k + 1))))
               \<and> confirmTime s = Some (f_time (endFractal (bis ! (k + 2))))
               \<and> confirmPrice s = Some (f_price (endFractal (bis ! (k + 2))))"
    if "z \<in> set zs"
  proof -
    from detectThirdBuys_contains[OF that, of ids bis atrValues params symbol timeframe market n]
    obtain m where
      "set (fst (thirdBuyFor ids bis atrValues params symbol timeframe market z m)) \<subseteq> set ?res"
      by blast
    with one[of m] have "?sig m \<in> set ?res" by simp
    moreover have "tb_zhongshu (?sig m) = z \<and> tb_status (?sig m) = Confirmed
        \<and> breakoutPrice (?sig m) = f_price (endFractal (bis ! k))
        \<and> pullbackLow (?sig m) = Some (f_price (endFractal (bis ! (k + 1))))
        \<and> confirmTime (?sig m) = Some (f_time (endFractal (bis ! (k + 2))))
        \<and> confirmPrice (?sig m) = Some (f_price (endFractal (bis ! (k + 2))))"
      by (simp add: heldCandidate_def)
    ultimately show ?thesis by blast
  qed
  from one[of n] all ex show ?thesis by blast
qed

theorem thirdBuy_confirmed_only_witness:
  "breakoutIndex (calcATR confirmBars 14) confirmParams (res_bis confirmRun)
      (res_zhongshus confirmRun ! 0) = Some 3
   \<and> 3 + 2 < length (res_bis confirmRun)
   \<and> direction (res_bis confirmRun ! (3 + 1)) = Down
   \<and> \<not> pullbackEntered (calcATR confirmBars 14) confirmParams (res_zhongshus confirmRun ! 0)
          (res_bis confirmRun ! (3 + 1))
   \<and> direction (res_bis confirmRun ! (3 + 2)) = Up
   \<and> confirmationPasses confirmParams
        (res_bis confirmRun ! 3) (res_bis confirmRun ! (3 + 1)) (res_bis confirmRun ! (3 + 2))
   \<and> res_zhongshus confirmRun ! 0 \<in> set (res_zhongshus confirmRun)
   \<and> f_price (endFractal (res_bis confirmRun ! (3 + 2))) = 32
   \<and> (\<exists>s \<in> set (fst (detectThirdBuys sampleIds 0 (res_bis confirmRun) (res_zhongshus confirmRun)
                       (calcATR confirmBars 14) confirmParams ''EURUSD'' TF_1H Fx)).
         tb_zhongshu s = res_zhongshus confirmRun ! 0 \<and> tb_status s = Confirmed
         \<and> confirmPrice s = Some (f_price (endFractal (res_bis confirmRun ! (3 + 2)))))
   \<and> fst (detectThirdBuys sampleIds 0 (res_bis confirmRun) (res_zhongshus confirmRun)
            (calcATR confirmBars 14) confirmParams ''EURUSD'' TF_1H Fx)
       = res_thirdBuys confirmRun"
proof -
  have h1: "breakoutIndex (calcATR confirmBars 14) confirmParams (res_bis confirmRun)
              (res_zhongshus confirmRun ! 0) = Some 3" by code_simp
  have h2: "3 + 2 < length (res_bis confirmRun)" by code_simp
  have h3: "direction (res_bis confirmRun ! (3 + 1)) = Down" by code_simp
  have h4: "\<not> pullbackEntered (calcATR confirmBars 14) confirmParams
                (res_zhongshus confirmRun ! 0) (res_bis confirmRun ! (3 + 1))" by code_simp
  have h5: "direction (res_bis confirmRun ! (3 + 2)) = Up" by code_simp
  have h6: "confirmationPasses confirmParams (res_bis confirmRun ! 3)
              (res_bis confirmRun ! (3 + 1)) (res_bis confirmRun ! (3 + 2))" by code_simp
  have h7: "res_zhongshus confirmRun ! 0 \<in> set (res_zhongshus confirmRun)" by code_simp
  have e1: "f_price (endFractal (res_bis confirmRun ! (3 + 2))) = 32" by code_simp
  have e2: "fst (detectThirdBuys sampleIds 0 (res_bis confirmRun) (res_zhongshus confirmRun)
            (calcATR confirmBars 14) confirmParams ''EURUSD'' TF_1H Fx)
       = res_thirdBuys confirmRun" by code_simp
  from thirdBuy_confirmed_only[OF h1 h2 h3 h4 h5 h6, where ids = sampleIds and n = 0
      and symbol = "''EURUSD''" and timeframe = TF_1H and market = Fx
      and zs = "res_zhongshus confirmRun"] h7
  have ex: "\<exists>s \<in> set (fst (detectThirdBuys sampleIds 0 (res_bis confirmRun)
                       (res_zhongshus confirmRun) (calcATR confirmBars 14) confirmParams
                       ''EURUSD'' TF_1H Fx)).
         tb_zhongshu s = res_zhongshus confirmRun ! 0 \<and> tb_status s = Confirmed
         \<and> confirmPrice s = Some (f_price (endFractal (res_bis confirmRun ! (3 + 2))))"
    by blast
  from h1 h2 h3 h4 h5 h6 h7 e1 e2 ex show ?thesis by blast
qed

section \<open>The parameter spread\<close>

text \<open>
  A key that is present with the value \<open>undefined\<close> replaces the default: with
  \<open>{minBiKbars: undefined}\<close> no fractal pair is rejected for its bar count, and the run on
  \<open>zigzagBars\<close> keeps all three bis.
\<close>

lemma spreadParams_undefined_minBiKbars:
  "minBiKbars (spreadParams (DEFAULT_PARAMS Fx) kbarsUndefined) = None
   \<and> minBiKbars (spreadParams (DEFAULT_PARAMS Fx) noOverrides) = Some 5
   \<and> map direction
         (res_bis (fst (runChanlun sampleIds 0 zigzagBars Fx ''EURUSD'' TF_1H kbarsUndefined)))
       = [Up, Down, Up]"
  by code_simp

section \<open>Running the pipeline twice\<close>

lemma thirdBuyFor_strip:
  "map stripId (fst (thirdBuyFor ids bis atrValues params symbol timeframe market z n))
     = map stripId (fst (thirdBuyFor ids' bis atrValues params symbol timeframe market z n'))"
  by (simp add: thirdBuyFor_def Let_def breakoutCandidate_def heldCandidate_def stripId_def
      split: option.splits)

lemma thirdBuyLoop_strip:
  "map stripId (fst (foldl (thirdBuyStep ids bis atrValues params symbol timeframe market) st zs))
     = map stripId (fst st)
       @ concat (map (\<lambda>z. map stripId
           (fst (thirdBuyFor (\<lambda>_. []) bis atrValues params symbol timeframe market z 0))) zs)"
proof (induction zs arbitrary: st)
  case Nil
  then show ?case by simp
next
  case (Cons z zs)
  show ?case
    unfolding foldl_Cons Cons.IH
    using thirdBuyFor_strip[of ids bis atrValues params symbol timeframe market z "snd st" "\<lambda>_. []" 0]
    by (simp add: thirdBuyStep_def Let_def)
qed

lemma detectThirdBuys_strip:
  "map stripId (fst (detectThirdBuys ids n bis zs atrValues params symbol timeframe market))
     = map stripId (fst (detectThirdBuys ids' n' bis zs atrValues params symbol timeframe market))"
  by (simp add: detectThirdBuys_def thirdBuyLoop_strip)

text \<open>
  Claim C3, as stated, fails: two runs on \<open>confirmBars\<close>, the second started where the
  first left the identifier generator, return different third-buy signal lists (their
  identifiers differ).
\<close>

theorem runChanlun_twice_counterexample:
  "res_thirdBuys (fst (runChanlun sampleIds 0 confirmBars Fx ''EURUSD'' TF_1H kbars1))
   \<noteq> res_thirdBuys (fst (runChanlun sampleIds
         (snd (runChanlun sampleIds 0 confirmBars Fx ''EURUSD'' TF_1H kbars1))
         confirmBars Fx ''EURUSD'' TF_1H kbars1))"
  by code_simp

text \<open>
  Claim C3, amended. Two runs of \<open>runChanlun\<close> on the same bars, market, symbol, timeframe
  and parameters, whatever the state of the identifier generator, return equal processed
  bars, fractals, bis and zhongshus, and third-buy signal lists that are equal up to the
  signals' identifiers.
\<close>

theorem runChanlun_deterministic_up_to_ids:
  "res_processedBars (fst (runChanlun ids n bars market symbol timeframe params))
     = res_processedBars (fst (runChanlun ids' n' bars market symbol timeframe params))
   \<and> res_fractals (fst (runChanlun ids n bars market symbol timeframe params))
     = res_fractals (fst (runChanlun ids' n' bars market symbol timeframe params))
   \<and> res_bis (fst (runChanlun ids n bars market symbol timeframe params))
     = res_bis (fst (runChanlun ids' n' bars market symbol timeframe params))
   \<and> res_zhongshus (fst (runChanlun ids n bars market symbol timeframe params))
     = res_zhongshus (fst (runChanlun ids' n' bars market symbol timeframe params))
   \<and> map stripId (res_thirdBuys (fst (runChanlun ids n bars market symbol timeframe params)))
     = map stripId (res_thirdBuys (fst (runChanlun ids' n' bars market symbol timeframe params)))"
  using detectThirdBuys_strip[of ids n _ _ _ _ symbol timeframe market ids' n']
  by (simp add: runChanlun_def Let_def)

end
